theory Spec2Isabelle
  imports Complex_Main
begin

section \<open>Numbers and their text\<close>

text \<open>
  The source file \<^verbatim>\<open>src/main.ts\<close> holds two near-identical copies of the class
  \<^verbatim>\<open>Ruler\<close>: lines 1--364 (here: the first copy, suffix \<open>_1\<close>) and lines 365--659 (the
  second copy, suffix \<open>_2\<close>). They differ in \<^verbatim>\<open>getPixelsPerUnit\<close>, \<^verbatim>\<open>drawTicks\<close> and
  the guard of \<^verbatim>\<open>drawMousePosition\<close>; every other method is the same text and is modelled
  once, with the copy as a parameter.

  A TypeScript \<^verbatim>\<open>number\<close> is modelled by an exact rational: \<open>+\<close>, \<open>*\<close>, \<open>/\<close> and \<open>%\<close> are
  the exact operations, binary rounding is left out. The two places where the language
  leaves the rationals are written out: \<open>a % 0\<close> is \<^verbatim>\<open>NaN\<close>, and \<open>a / 0\<close> is \<^verbatim>\<open>NaN\<close> or
  an infinity. Numbers are printed as the language prints magnitudes below \<open>10^21\<close>, in
  plain digits. The canvas's \<^verbatim>\<open>width\<close> and \<^verbatim>\<open>height\<close> hold what is assigned to them; the
  conversion of the document model to a whole number of pixels is left out.
\<close>

definition trunc :: "rat \<Rightarrow> int" where
  \<comment> \<open>rounding towards zero, as the remainder operator does\<close>
  "trunc x = (if 0 \<le> x then \<lfloor>x\<rfloor> else \<lceil>x\<rceil>)"

definition js_rem :: "rat \<Rightarrow> rat \<Rightarrow> rat option" where
  \<comment> \<open>\<^verbatim>\<open>a % b\<close>; \<open>None\<close> is \<^verbatim>\<open>NaN\<close>, which is \<^verbatim>\<open>===\<close> to nothing\<close>
  "js_rem a b = (if b = 0 then None else Some (a - b * of_int (trunc (a / b))))"

datatype number = Num rat | Infinity | NegInfinity | NaN

definition js_div :: "rat \<Rightarrow> rat \<Rightarrow> number" where
  \<comment> \<open>\<^verbatim>\<open>a / b\<close>, the divisor being \<open>+0\<close> when it is zero\<close>
  "js_div a b =
     (if b \<noteq> 0 then Num (a / b)
      else if a = 0 then NaN
      else if 0 < a then Infinity
      else NegInfinity)"

definition digit :: "nat \<Rightarrow> char" where
  "digit d = ''0123456789'' ! d"

fun digits :: "nat \<Rightarrow> string" where
  "digits n = (if n < 10 then [digit n] else digits (n div 10) @ [digit (n mod 10)])"

declare digits.simps [simp del]

fun fraction_digits :: "nat \<Rightarrow> rat \<Rightarrow> string" where
  "fraction_digits 0 f = []"
| "fraction_digits (Suc k) f =
     (if f = 0 then []
      else digit (nat \<lfloor>10 * f\<rfloor>) # fraction_digits k (10 * f - of_int \<lfloor>10 * f\<rfloor>))"

definition String_num :: "rat \<Rightarrow> string" where
  \<comment> \<open>\<^verbatim>\<open>String(x)\<close>: an integer prints as its decimal digits; any other value prints its
      integer part, a point and its decimal fraction (cut after 17 digits, where the
      language prints the shortest digits that identify the binary value)\<close>
  "String_num x =
     (if x < 0 then ''-'' else '''') @ digits (nat \<lfloor>\<bar>x\<bar>\<rfloor>) @
     (if of_int \<lfloor>x\<rfloor> = x then '''' else ''.'' @ fraction_digits 17 (\<bar>x\<bar> - of_int \<lfloor>\<bar>x\<bar>\<rfloor>))"

fun toFixed0 :: "number \<Rightarrow> string" where
  \<comment> \<open>\<^verbatim>\<open>x.toFixed(0)\<close>: the nearest integer, a tie going to the larger magnitude\<close>
  "toFixed0 (Num x) = (if x < 0 then ''-'' else '''') @ digits (nat \<lfloor>\<bar>x\<bar> + 1 / 2\<rfloor>)"
| "toFixed0 Infinity = ''Infinity''"
| "toFixed0 NegInfinity = ''-Infinity''"
| "toFixed0 NaN = ''NaN''"

fun findIndex :: "('a \<Rightarrow> bool) \<Rightarrow> 'a list \<Rightarrow> int" where
  \<comment> \<open>\<^verbatim>\<open>Array.prototype.findIndex\<close>: the first index whose element passes, else \<open>-1\<close>\<close>
  "findIndex P [] = - 1"
| "findIndex P (x # xs) =
     (if P x then 0 else (let k = findIndex P xs in if k = - 1 then - 1 else k + 1))"


section \<open>Configuration, instance state and the drawing surface\<close>

datatype position = Inside | Outside

datatype orientation = Horizontal | Vertical

text \<open>The options as the caller passes them: every field may be absent.\<close>

record RulerOptions =
  unit' :: "string option"
  tickMajor' :: "rat option"
  tickMinor' :: "rat option"
  tickMicro' :: "rat option"
  showLabel' :: "bool option"
  startX' :: "rat option"
  startY' :: "rat option"
  arrowStyle' :: "string option"
  showMousePosition' :: "bool option"
  position' :: "position option"
  orientation' :: "orientation option"
  rulerThickness' :: "rat option"

text \<open>\<^verbatim>\<open>this.options\<close> after the constructor's merge: every field is present.\<close>

record options =
  unit :: string
  tickMajor :: rat
  tickMinor :: rat
  tickMicro :: rat
  showLabel :: bool
  startX :: rat
  startY :: rat
  arrowStyle :: string
  showMousePosition :: bool
  position :: position
  orientation :: orientation
  rulerThickness :: rat

definition defaultOptions :: options where
  "defaultOptions =
     \<lparr>unit = ''px'', tickMajor = 100, tickMinor = 20, tickMicro = 10, showLabel = True,
      startX = 0, startY = 0, arrowStyle = ''line'', showMousePosition = True,
      position = Outside, orientation = Horizontal, rulerThickness = 30\<rparr>"

definition merge :: "options \<Rightarrow> RulerOptions \<Rightarrow> options" where
  \<comment> \<open>\<^verbatim>\<open>{ ...this.defaultOptions, ...options }\<close>\<close>
  "merge d o' =
     \<lparr>unit = case_option (unit d) id (unit' o'),
      tickMajor = case_option (tickMajor d) id (tickMajor' o'),
      tickMinor = case_option (tickMinor d) id (tickMinor' o'),
      tickMicro = case_option (tickMicro d) id (tickMicro' o'),
      showLabel = case_option (showLabel d) id (showLabel' o'),
      startX = case_option (startX d) id (startX' o'),
      startY = case_option (startY d) id (startY' o'),
      arrowStyle = case_option (arrowStyle d) id (arrowStyle' o'),
      showMousePosition = case_option (showMousePosition d) id (showMousePosition' o'),
      position = case_option (position d) id (position' o'),
      orientation = case_option (orientation d) id (orientation' o'),
      rulerThickness = case_option (rulerThickness d) id (rulerThickness' o')\<rparr>"

record dimensions =
  width :: rat
  height :: rat

record canvas = dimensions +
  style_position :: string
  style_top :: string
  style_left :: string

text \<open>
  The fields of a \<^verbatim>\<open>Ruler\<close>. The 2D context is write-only for the class, so it is
  modelled by the sequence of calls a method makes on it, returned beside the state.
\<close>

record ruler =
  options :: options
  canvas :: canvas
  size' :: dimensions
  unitDiv :: rat
  mouseX :: rat
  mouseY :: rat

datatype cmd =
    ClearRect rat rat rat rat
  | BeginPath
  | MoveTo rat rat
  | LineTo rat rat
  | Stroke
  | FillText string rat rat
  | StrokeStyle string
  | FillStyle string

text \<open>
  What a method reads from the page: the container (its client box and its bounding
  rectangle), the canvas's parent at the time of the call, the rendered width of the
  one-millimetre probe, and whether a 2D context could be had.
\<close>

record container =
  clientWidth :: nat
  clientHeight :: nat
  rect_left :: rat
  rect_top :: rat

record page =
  parentElement :: "container option"
  offsetWidth_1mm :: nat
  context2d :: bool

record MouseEvent =
  clientX :: rat
  clientY :: rat

datatype error = TypeError

datatype copy = First | Second


section \<open>Scale factor\<close>

definition calcPixelsPerMM :: "page \<Rightarrow> rat" where
  "calcPixelsPerMM p = of_nat (offsetWidth_1mm p)"

definition getPixelsPerUnit_1 :: "options \<Rightarrow> rat" where
  \<comment> \<open>lines 81--94\<close>
  "getPixelsPerUnit_1 opts =
     (if unit opts = ''px'' then 1
      else if unit opts = ''mm'' then 60 / (254 / 10)
      else if unit opts = ''cm'' then (60 / (254 / 10)) * 10
      else if unit opts = ''in'' then 60
      else 1)"

definition getPixelsPerUnit_2 :: "page \<Rightarrow> options \<Rightarrow> rat" where
  \<comment> \<open>lines 445--458\<close>
  "getPixelsPerUnit_2 p opts =
     (if unit opts = ''px'' then 1
      else if unit opts = ''mm'' then calcPixelsPerMM p
      else if unit opts = ''cm'' then calcPixelsPerMM p * 10
      else if unit opts = ''in'' then calcPixelsPerMM p * (254 / 10)
      else 1)"

fun getPixelsPerUnit :: "copy \<Rightarrow> page \<Rightarrow> options \<Rightarrow> rat" where
  "getPixelsPerUnit First p opts = getPixelsPerUnit_1 opts"
| "getPixelsPerUnit Second p opts = getPixelsPerUnit_2 p opts"


section \<open>Ticks\<close>

definition tickHeights :: "rat list" where
  "tickHeights = [15, 10, 5]"

text \<open>One pass through the body of the loop at lines 515--537, at coordinate \<open>i\<close>.\<close>

definition tick_2 :: "orientation \<Rightarrow> rat \<Rightarrow> rat \<Rightarrow> rat \<Rightarrow> bool \<Rightarrow> rat \<Rightarrow> cmd list" where
  "tick_2 orient major minor micro show_label i =
     (let tickTypeIndex =
            findIndex (\<lambda>tick. js_rem i tick = Some 0 \<and> tick > 0) [major, minor, micro]
      in if tickTypeIndex = - 1 then []
         else
           let tickHeight = tickHeights ! nat tickTypeIndex
           in if orient = Horizontal
              then [MoveTo i 0, LineTo i tickHeight] @
                   (if show_label \<and> tickTypeIndex = 0
                    then [FillText (String_num i) (i + 2) (tickHeight + 10)] else [])
              else [MoveTo 0 i, LineTo tickHeight i] @
                   (if show_label \<and> tickTypeIndex = 0
                    then [FillText (String_num i) (tickHeight + 2) (i + 10)] else []))"

text \<open>One pass through the body of the loop at lines 200--241.\<close>

definition tick_1 :: "orientation \<Rightarrow> rat \<Rightarrow> rat \<Rightarrow> rat \<Rightarrow> bool \<Rightarrow> rat \<Rightarrow> cmd list" where
  "tick_1 orient major minor micro show_label i =
     (let tickTypeIndex =
            (if js_rem i major = Some 0 \<and> major > 0 then 0
             else if js_rem i minor = Some 0 \<and> minor > 0 then 1
             else if js_rem i micro = Some 0 \<and> micro > 0 then 2
             else (- 1 :: int))
      in if tickTypeIndex = - 1 then []
         else
           let tickHeight = tickHeights ! nat tickTypeIndex
           in if orient = Horizontal
              then [MoveTo i 0, LineTo i tickHeight] @
                   (if show_label \<and> tickTypeIndex = 0
                    then [FillText (String_num i) (i + 2) (tickHeight + 10)]
                    else if show_label \<and> tickTypeIndex = 0
                    then [FillText (String_num i) (i + 2) (tickHeight + 10)] else [])
              else [MoveTo 0 i, LineTo tickHeight i] @
                   (if show_label \<and> tickTypeIndex = 0
                    then [FillText (String_num i) (tickHeight + 2) (i + 10)]
                    else if show_label \<and> tickTypeIndex = 0
                    then [FillText (String_num i) (tickHeight + 2) (i + 10)] else []))"

text \<open>
  The three loop bodies of the inch branch, lines 153--198. The label of a major tick
  is \<^verbatim>\<open>(i / 60).toFixed(0) + '"'\<close> and does not look at \<^verbatim>\<open>show_label\<close>; the vertical
  major tick is drawn with \<^verbatim>\<open>tickHeights[1]\<close>.
\<close>

definition inch_major :: "orientation \<Rightarrow> rat \<Rightarrow> cmd list" where
  "inch_major orient i =
     (if orient = Horizontal
      then [MoveTo i 0, LineTo i (tickHeights ! 0),
            FillText (toFixed0 (js_div i 60) @ [CHR 0x22]) (i + 2) (tickHeights ! 0 + 10)]
      else [MoveTo 0 i, LineTo (tickHeights ! 1) i,
            FillText (toFixed0 (js_div i 60) @ [CHR 0x22]) (tickHeights ! 0 + 2) (i + 10)])"

definition inch_minor :: "orientation \<Rightarrow> rat \<Rightarrow> rat \<Rightarrow> cmd list" where
  "inch_minor orient major i =
     (if js_rem i major = Some 0 then []
      else if orient = Horizontal
      then [MoveTo i 0, LineTo i (tickHeights ! 1)]
      else [MoveTo 0 i, LineTo (tickHeights ! 1) i])"

definition inch_micro :: "orientation \<Rightarrow> rat \<Rightarrow> rat \<Rightarrow> rat \<Rightarrow> cmd list" where
  "inch_micro orient major minor i =
     (if js_rem i major = Some 0 then []
      else if js_rem i minor = Some 0 then []
      else if orient = Horizontal
      then [MoveTo i 0, LineTo i (tickHeights ! 2)]
      else [MoveTo 0 i, LineTo (tickHeights ! 2) i])"

text \<open>
  \<^verbatim>\<open>for (let i = start; i < length; i += step) body(i)\<close>: the calls made so far are
  carried along. The loop need not end (the step may be zero or negative), so it is a
  partial function: \<open>None\<close> is a loop that never returns.
\<close>

partial_function (option) for_loop ::
  "(rat \<Rightarrow> cmd list) \<Rightarrow> rat \<Rightarrow> rat \<Rightarrow> rat \<Rightarrow> cmd list \<Rightarrow> cmd list option" where
  "for_loop body len step i ctx =
     (if i < len then for_loop body len step (i + step) (ctx @ body i) else Some ctx)"

declare for_loop.simps [code]

definition drawTicks_2 ::
  "ruler \<Rightarrow> orientation \<Rightarrow> rat \<Rightarrow> rat \<Rightarrow> rat \<Rightarrow> rat \<Rightarrow> rat \<Rightarrow> bool \<Rightarrow> cmd list option" where
  \<comment> \<open>lines 502--540\<close>
  "drawTicks_2 this orient len major minor micro start show_label =
     (case for_loop (tick_2 orient major minor micro show_label) len (unitDiv this) start
             [BeginPath] of
        None \<Rightarrow> None
      | Some ctx \<Rightarrow> Some (ctx @ [Stroke]))"

definition drawTicks_1 ::
  "ruler \<Rightarrow> orientation \<Rightarrow> rat \<Rightarrow> rat \<Rightarrow> rat \<Rightarrow> rat \<Rightarrow> rat \<Rightarrow> bool \<Rightarrow> cmd list option" where
  \<comment> \<open>lines 138--245\<close>
  "drawTicks_1 this orient len major minor micro start show_label =
     (if unit (options this) = ''in''
      then
        (case for_loop (inch_major orient) len major start [BeginPath] of
           None \<Rightarrow> None
         | Some ctx1 \<Rightarrow>
             (case for_loop (inch_minor orient major) len minor start ctx1 of
                None \<Rightarrow> None
              | Some ctx2 \<Rightarrow>
                  (case for_loop (inch_micro orient major minor) len micro start ctx2 of
                     None \<Rightarrow> None
                   | Some ctx3 \<Rightarrow> Some (ctx3 @ [Stroke]))))
      else
        (case for_loop (tick_1 orient major minor micro show_label) len (unitDiv this) start
                [BeginPath] of
           None \<Rightarrow> None
         | Some ctx \<Rightarrow> Some (ctx @ [Stroke])))"

fun drawTicks ::
  "copy \<Rightarrow> ruler \<Rightarrow> orientation \<Rightarrow> rat \<Rightarrow> rat \<Rightarrow> rat \<Rightarrow> rat \<Rightarrow> rat \<Rightarrow> bool \<Rightarrow> cmd list option" where
  "drawTicks First = drawTicks_1"
| "drawTicks Second = drawTicks_2"


section \<open>Rendering\<close>

definition drawMousePosition_body :: "ruler \<Rightarrow> cmd list" where
  \<comment> \<open>lines 282--312 and 577--607, the same text after the guard\<close>
  "drawMousePosition_body this =
     (let positionInUnits =
            (if orientation (options this) = Horizontal
             then toFixed0 (js_div (mouseX this) (unitDiv this))
             else toFixed0 (js_div (mouseY this) (unitDiv this)));
          positionText =
            (if orientation (options this) = Horizontal
             then ''X: '' @ positionInUnits @ unit (options this)
             else ''Y: '' @ positionInUnits @ unit (options this))
      in [BeginPath, StrokeStyle ''rgba(0, 0, 0, 0.3)''] @
         (if orientation (options this) = Horizontal
          then [MoveTo (mouseX this) 0, LineTo (mouseX this) (height (size' this))]
          else [MoveTo 0 (mouseY this), LineTo (width (size' this)) (mouseY this)]) @
         [Stroke, FillStyle ''black''] @
         (if orientation (options this) = Horizontal
          then [FillText positionText (mouseX this + 5) 15]
          else [FillText positionText 5 (mouseY this + 10)]))"

definition drawMousePosition_1 :: "ruler \<Rightarrow> cmd list" where
  \<comment> \<open>line 280: \<^verbatim>\<open>if (this.mouseX <= 0 || this.mouseY <= 0) return;\<close>\<close>
  "drawMousePosition_1 this =
     (if mouseX this \<le> 0 \<or> mouseY this \<le> 0 then [] else drawMousePosition_body this)"

definition drawMousePosition_2 :: "ruler \<Rightarrow> cmd list" where
  \<comment> \<open>line 575: \<^verbatim>\<open>if (this.mouseX < 0 || this.mouseY < 0) return;\<close>\<close>
  "drawMousePosition_2 this =
     (if mouseX this < 0 \<or> mouseY this < 0 then [] else drawMousePosition_body this)"

fun drawMousePosition :: "copy \<Rightarrow> ruler \<Rightarrow> cmd list" where
  "drawMousePosition First = drawMousePosition_1"
| "drawMousePosition Second = drawMousePosition_2"

definition renderRuler :: "copy \<Rightarrow> ruler \<Rightarrow> cmd list option" where
  \<comment> \<open>lines 105--136 and 469--500\<close>
  "renderRuler c this =
     (let opts = options this
      in case (if orientation opts = Horizontal
               then drawTicks c this Horizontal (width (size' this))
                      (tickMajor opts) (tickMinor opts) (tickMicro opts) (startX opts)
                      (showLabel opts)
               else drawTicks c this Vertical (height (size' this))
                      (tickMajor opts) (tickMinor opts) (tickMicro opts) (startY opts)
                      (showLabel opts)) of
           None \<Rightarrow> None
         | Some ticks \<Rightarrow>
             Some ([ClearRect 0 0 (width (size' this)) (height (size' this))] @ ticks @
                   (if showMousePosition opts then drawMousePosition c this else [])))"


section \<open>Construction, pointer events and refresh\<close>

text \<open>
  A method returns \<open>None\<close> when it never returns, \<open>Some (Inl e)\<close> when it throws, and
  \<open>Some (Inr (this, calls))\<close> with the instance after it and the calls it made on the
  2D context.
\<close>

type_synonym outcome = "(error + ruler \<times> cmd list) option"

definition rendered :: "copy \<Rightarrow> ruler \<Rightarrow> outcome" where
  "rendered c this =
     (case renderRuler c this of None \<Rightarrow> None | Some calls \<Rightarrow> Some (Inr (this, calls)))"

definition setPosition :: "ruler \<Rightarrow> ruler" where
  \<comment> \<open>lines 262--277 and 557--572; appending the canvas again does not change a field\<close>
  "setPosition this =
     (let thickness = rulerThickness (options this)
      in if position (options this) = Outside
         then if orientation (options this) = Horizontal
              then this\<lparr>canvas := (canvas this)
                     \<lparr>style_position := ''absolute'',
                      style_top := String_num (- thickness) @ ''px''\<rparr>\<rparr>
              else this\<lparr>canvas := (canvas this)
                     \<lparr>style_position := ''absolute'',
                      style_left := String_num (- thickness) @ ''px''\<rparr>\<rparr>
         else this)"

definition constructor :: "copy \<Rightarrow> page \<Rightarrow> container \<Rightarrow> RulerOptions \<Rightarrow> outcome" where
  \<comment> \<open>lines 40--79 and 404--443. Without a 2D context the first call on it, in
      \<^verbatim>\<open>renderRuler\<close>, throws.\<close>
  "constructor c pg cont o' =
     (let opts = merge defaultOptions o';
          thickness = rulerThickness opts;
          sz = (if orientation opts = Horizontal
                then \<lparr>width = of_nat (clientWidth cont), height = thickness\<rparr>
                else \<lparr>width = thickness, height = of_nat (clientHeight cont)\<rparr>);
          this = \<lparr>options = opts,
                  canvas = \<lparr>width = width sz, height = height sz, style_position = '''',
                            style_top = '''', style_left = ''''\<rparr>,
                  size' = sz, unitDiv = 1, mouseX = 0, mouseY = 0\<rparr>;
          this = this\<lparr>unitDiv := getPixelsPerUnit c pg opts\<rparr>
      in if \<not> context2d pg then Some (Inl TypeError)
         else case renderRuler c this of
                None \<Rightarrow> None
              | Some calls \<Rightarrow> Some (Inr (setPosition this, calls)))"

definition handleMouseMove :: "copy \<Rightarrow> page \<Rightarrow> MouseEvent \<Rightarrow> ruler \<Rightarrow> outcome" where
  \<comment> \<open>lines 247--255 and 542--550; \<^verbatim>\<open>parentElement!\<close> is not checked at run time\<close>
  "handleMouseMove c pg event this =
     (case parentElement pg of
        None \<Rightarrow> Some (Inl TypeError)
      | Some rect \<Rightarrow>
          (let this = this\<lparr>mouseX := clientX event - rect_left rect,
                          mouseY := clientY event - rect_top rect\<rparr>
           in if showMousePosition (options this) then rendered c this
              else Some (Inr (this, []))))"

definition handleMouseLeave :: "copy \<Rightarrow> ruler \<Rightarrow> outcome" where
  \<comment> \<open>lines 257--261 and 552--556\<close>
  "handleMouseLeave c this = rendered c (this\<lparr>mouseX := - 1, mouseY := - 1\<rparr>)"

definition or_previous :: "nat option \<Rightarrow> rat \<Rightarrow> rat" where
  \<comment> \<open>\<^verbatim>\<open>parentElement?.clientWidth || previous\<close>: \<^verbatim>\<open>undefined\<close> and \<open>0\<close> are falsy\<close>
  "or_previous extent previous =
     (case extent of
        None \<Rightarrow> previous
      | Some n \<Rightarrow> if n = 0 then previous else of_nat n)"

definition refresh :: "copy \<Rightarrow> page \<Rightarrow> ruler \<Rightarrow> outcome" where
  \<comment> \<open>lines 315--328 and 610--623\<close>
  "refresh c pg this =
     (let thickness = rulerThickness (options this);
          this =
            (if orientation (options this) = Horizontal
             then let w = or_previous (map_option clientWidth (parentElement pg))
                            (width (size' this))
                  in this\<lparr>size' := (size' this)\<lparr>width := w\<rparr>,
                          canvas := (canvas this)\<lparr>width := w, height := thickness\<rparr>\<rparr>
             else let h = or_previous (map_option clientHeight (parentElement pg))
                            (height (size' this))
                  in this\<lparr>size' := (size' this)\<lparr>height := h\<rparr>,
                          canvas := (canvas this)\<lparr>height := h, width := thickness\<rparr>\<rparr>);
          this = this\<lparr>unitDiv := getPixelsPerUnit c pg (options this)\<rparr>
      in rendered c this)"


section \<open>Notions used to state the properties\<close>

subsection \<open>Parts and observations of a render\<close>

definition extent_of :: "ruler \<Rightarrow> rat" where
  \<comment> \<open>the length handed to \<^verbatim>\<open>drawTicks\<close>\<close>
  "extent_of this =
     (if orientation (options this) = Horizontal then width (size' this)
      else height (size' this))"

definition start_of :: "ruler \<Rightarrow> rat" where
  "start_of this =
     (if orientation (options this) = Horizontal then startX (options this)
      else startY (options this))"

definition ticks_of :: "copy \<Rightarrow> ruler \<Rightarrow> cmd list option" where
  \<comment> \<open>the call of \<^verbatim>\<open>drawTicks\<close> that \<^verbatim>\<open>renderRuler\<close> makes\<close>
  "ticks_of c this =
     drawTicks c this (orientation (options this)) (extent_of this)
       (tickMajor (options this)) (tickMinor (options this)) (tickMicro (options this))
       (start_of this) (showLabel (options this))"

definition cursor_indicator :: "copy \<Rightarrow> ruler \<Rightarrow> cmd list" where
  \<comment> \<open>what \<^verbatim>\<open>renderRuler\<close> draws after the ticks\<close>
  "cursor_indicator c this =
     (if showMousePosition (options this) then drawMousePosition c this else [])"









fun scale_after :: "outcome \<Rightarrow> rat option" where
  "scale_after (Some (Inr (this, calls))) = Some (unitDiv this)"
| "scale_after other = None"

fun calls_of :: "outcome \<Rightarrow> cmd list option" where
  "calls_of (Some (Inr (this, calls))) = Some calls"
| "calls_of other = None"


definition remeasured :: "copy \<Rightarrow> page \<Rightarrow> ruler \<Rightarrow> ruler" where
  \<comment> \<open>the instance as \<^verbatim>\<open>refresh\<close> hands it to \<^verbatim>\<open>renderRuler\<close>\<close>
  "remeasured c pg this =
     (let this =
        (if orientation (options this) = Horizontal
         then let w = or_previous (map_option clientWidth (parentElement pg))
                        (width (size' this))
              in this\<lparr>size' := (size' this)\<lparr>width := w\<rparr>,
                      canvas := (canvas this)\<lparr>width := w, height := rulerThickness (options this)\<rparr>\<rparr>
         else let h = or_previous (map_option clientHeight (parentElement pg))
                        (height (size' this))
              in this\<lparr>size' := (size' this)\<lparr>height := h\<rparr>,
                      canvas := (canvas this)\<lparr>height := h, width := rulerThickness (options this)\<rparr>\<rparr>)
      in this\<lparr>unitDiv := getPixelsPerUnit c pg (options this)\<rparr>)"

definition constructed :: "copy \<Rightarrow> page \<Rightarrow> container \<Rightarrow> RulerOptions \<Rightarrow> ruler" where
  \<comment> \<open>the instance as the constructor hands it to \<^verbatim>\<open>renderRuler\<close>\<close>
  "constructed c pg cont o' =
     (let opts = merge defaultOptions o';
          sz = (if orientation opts = Horizontal
                then \<lparr>width = of_nat (clientWidth cont), height = rulerThickness opts\<rparr>
                else \<lparr>width = rulerThickness opts, height = of_nat (clientHeight cont)\<rparr>)
      in \<lparr>options = opts,
          canvas = \<lparr>width = width sz, height = height sz, style_position = '''',
                    style_top = '''', style_left = ''''\<rparr>,
          size' = sz, unitDiv = getPixelsPerUnit c pg opts, mouseX = 0, mouseY = 0\<rparr>)"





subsection \<open>Tick positions and kinds\<close>

definition positions :: "rat \<Rightarrow> rat \<Rightarrow> rat \<Rightarrow> rat list" where
  \<comment> \<open>\<open>start\<close>, \<open>start + step\<close>, \<open>start + 2 step\<close>, ... below \<open>len\<close>, for a positive step\<close>
  "positions start len step =
     (if start < len
      then map (\<lambda>k. start + of_nat k * step) [0..<nat \<lceil>(len - start) / step\<rceil>]
      else [])"

definition evenly_divisible :: "rat \<Rightarrow> rat \<Rightarrow> bool" where
  \<comment> \<open>\<open>i\<close> is a whole multiple of \<open>m\<close>\<close>
  "evenly_divisible i m = (m \<noteq> 0 \<and> of_int \<lfloor>i / m\<rfloor> = i / m)"

datatype tick_kind = Major | Minor | Micro

fun tick_length :: "tick_kind \<Rightarrow> rat" where
  "tick_length Major = 15"
| "tick_length Minor = 10"
| "tick_length Micro = 5"

definition kind_at :: "rat \<Rightarrow> rat \<Rightarrow> rat \<Rightarrow> rat \<Rightarrow> tick_kind option" where
  \<comment> \<open>the kind chosen by priority among the intervals that are positive\<close>
  "kind_at major minor micro i =
     (if 0 < major \<and> evenly_divisible i major then Some Major
      else if 0 < minor \<and> evenly_divisible i minor then Some Minor
      else if 0 < micro \<and> evenly_divisible i micro then Some Micro
      else None)"


definition tick_line :: "orientation \<Rightarrow> rat \<Rightarrow> rat \<Rightarrow> cmd list" where
  \<comment> \<open>a tick of length \<open>h\<close> at \<open>i\<close>, from the baseline edge\<close>
  "tick_line orient i h =
     (if orient = Horizontal then [MoveTo i 0, LineTo i h] else [MoveTo 0 i, LineTo h i])"



fun label_at :: "orientation \<Rightarrow> rat \<Rightarrow> cmd" where
  "label_at Horizontal i = FillText (String_num i) (i + 2) 25"
| "label_at Vertical i = FillText (String_num i) 17 (i + 10)"


definition tick_at :: "orientation \<Rightarrow> rat \<Rightarrow> rat \<Rightarrow> rat \<Rightarrow> bool \<Rightarrow> rat \<Rightarrow> cmd list" where
  "tick_at orient major minor micro show_label i =
     (case kind_at major minor micro i of
        None \<Rightarrow> []
      | Some k \<Rightarrow>
          tick_line orient i (tick_length k) @
          (if show_label \<and> k = Major then [label_at orient i] else []))"

definition steps_forward :: "copy \<Rightarrow> options \<Rightarrow> rat \<Rightarrow> bool" where
  \<comment> \<open>every loop of \<^verbatim>\<open>drawTicks\<close> has a positive step\<close>
  "steps_forward c opts scale =
     (if c = First \<and> unit opts = ''in''
      then 0 < tickMajor opts \<and> 0 < tickMinor opts \<and> 0 < tickMicro opts
      else 0 < scale)"

subsection \<open>The configurations of the source's own test section\<close>

definition horizontalOptions_1 :: RulerOptions where
  \<comment> \<open>lines 335--344\<close>
  "horizontalOptions_1 =
     \<lparr>unit' = Some ''in'', tickMajor' = Some 60, tickMinor' = Some 30, tickMicro' = Some 10,
      showLabel' = Some True, startX' = None, startY' = None, arrowStyle' = None,
      showMousePosition' = Some True, position' = None, orientation' = Some Horizontal,
      rulerThickness' = Some 30\<rparr>"

definition horizontalOptions_2 :: RulerOptions where
  \<comment> \<open>lines 630--639\<close>
  "horizontalOptions_2 =
     \<lparr>unit' = Some ''px'', tickMajor' = Some 50, tickMinor' = Some 10, tickMicro' = Some 5,
      showLabel' = Some True, startX' = None, startY' = None, arrowStyle' = None,
      showMousePosition' = Some True, position' = None, orientation' = Some Horizontal,
      rulerThickness' = Some 30\<rparr>"


definition testDiv :: "nat \<Rightarrow> nat \<Rightarrow> container" where
  \<comment> \<open>a container of the given client size, its corner at (8, 8) of the viewport\<close>
  "testDiv w h = \<lparr>clientWidth = w, clientHeight = h, rect_left = 8, rect_top = 8\<rparr>"

definition test_page :: "container \<Rightarrow> nat \<Rightarrow> page" where
  \<comment> \<open>a page where the canvas is attached and the probe measures \<open>mm\<close> pixels\<close>
  "test_page cont mm = \<lparr>parentElement = Some cont, offsetWidth_1mm = mm, context2d = True\<rparr>"

definition test_ruler :: "RulerOptions \<Rightarrow> rat \<Rightarrow> rat \<Rightarrow> rat \<Rightarrow> rat \<Rightarrow> rat \<Rightarrow> ruler" where
  \<comment> \<open>an instance with the given options, size, scale and pointer\<close>
  "test_ruler o' w h scale x y =
     setPosition
       \<lparr>options = merge defaultOptions o',
        canvas = \<lparr>width = w, height = h, style_position = '''',
                  style_top = '''', style_left = ''''\<rparr>,
        size' = \<lparr>width = w, height = h\<rparr>, unitDiv = scale, mouseX = x, mouseY = y\<rparr>"


section \<open>The loop and the tick at one position\<close>

lemma for_loop_stuck:
  assumes "for_loop body len step i ctx = Some y"
  shows "\<not> (step \<le> 0 \<and> i < len)"
proof (rule for_loop.raw_induct[where P = "\<lambda>body len step i ctx y. \<not> (step \<le> 0 \<and> i < len)", OF _ assms])
  fix loop :: "(rat \<Rightarrow> cmd list) \<Rightarrow> rat \<Rightarrow> rat \<Rightarrow> rat \<Rightarrow> cmd list \<Rightarrow> cmd list option"
    and body len step i ctx y
  assume IH: "\<And>body len step i ctx y. loop body len step i ctx = Some y \<Longrightarrow> \<not> (step \<le> 0 \<and> i < len)"
    and eq: "(if i < len then loop body len step (i + step) (ctx @ body i) else Some ctx) = Some y"
  show "\<not> (step \<le> 0 \<and> i < len)"
  proof
    assume a: "step \<le> 0 \<and> i < len"
    with eq have "loop body len step (i + step) (ctx @ body i) = Some y" by simp
    from IH[OF this] a show False by auto
  qed
qed

lemma for_loop_diverges:
  "step \<le> 0 \<Longrightarrow> i < len \<Longrightarrow> for_loop body len step i ctx = None"
  using for_loop_stuck[of body len step i ctx] by (cases "for_loop body len step i ctx") auto

lemma for_loop_count:
  assumes "0 < step"
  shows "nat \<lceil>(len - i) / step\<rceil> = n \<Longrightarrow>
         for_loop body len step i ctx =
           Some (ctx @ concat (map body (map (\<lambda>k. i + of_nat k * step) [0..<n])))"
proof (induction n arbitrary: i ctx)
  case 0
  then have "\<lceil>(len - i) / step\<rceil> \<le> 0" by simp
  then have "(len - i) / step \<le> 0" by (simp add: ceiling_le_iff)
  with assms have "len - i \<le> 0" by (simp add: divide_le_0_iff)
  then have "\<not> i < len" by simp
  then show ?case by (subst for_loop.simps) simp
next
  case (Suc n)
  then have pos: "0 < \<lceil>(len - i) / step\<rceil>" by linarith
  then have "0 < (len - i) / step" by (simp add: ceiling_less_iff less_ceiling_iff)
  with assms have lt: "i < len" by (simp add: zero_less_divide_iff)
  have "(len - (i + step)) / step = (len - i) / step - 1"
    using assms by (simp add: field_simps)
  then have "nat \<lceil>(len - (i + step)) / step\<rceil> = n"
    using Suc.prems by simp
  from Suc.IH[OF this, of "ctx @ body i"]
  have step': "for_loop body len step (i + step) (ctx @ body i) =
      Some ((ctx @ body i) @ concat (map body (map (\<lambda>k. i + step + of_nat k * step) [0..<n])))" .
  have shift: "map (\<lambda>k. i + of_nat k * step) [0..<Suc n] =
        i # map (\<lambda>k. i + step + of_nat k * step) [0..<n]"
    by (simp add: map_upt_Suc algebra_simps del: upt_Suc)
  show ?case
    by (subst for_loop.simps) (simp only: lt if_True step' shift, simp)
qed

lemma for_loop_eq:
  "for_loop body len step i ctx =
     (if i < len \<and> step \<le> 0 then None
      else Some (ctx @ concat (map body (positions i len step))))"
proof (cases "i < len")
  case False
  then show ?thesis by (subst for_loop.simps) (simp add: positions_def)
next
  case True
  show ?thesis
  proof (cases "step \<le> 0")
    case True
    with \<open>i < len\<close> show ?thesis by (simp add: for_loop_diverges)
  next
    case False
    then have "0 < step" by simp
    from for_loop_count[OF this refl, where len = len and i = i and body = body and ctx = ctx] \<open>i < len\<close> False
    show ?thesis by (simp add: positions_def)
  qed
qed

lemma js_rem_zero: "js_rem i m = Some 0 \<longleftrightarrow> evenly_divisible i m"
proof (cases "m = 0")
  case True
  then show ?thesis by (simp add: js_rem_def evenly_divisible_def)
next
  case False
  define q where "q = i / m"
  have i: "i = m * q" using False by (simp add: q_def)
  have "i - m * of_int (trunc q) = 0 \<longleftrightarrow> m * (q - of_int (trunc q)) = 0"
    by (simp add: i algebra_simps)
  also have "\<dots> \<longleftrightarrow> q = of_int (trunc q)" using False by simp
  also have "\<dots> \<longleftrightarrow> of_int \<lfloor>q\<rfloor> = q"
  proof
    assume "q = of_int (trunc q)"
    then have "q \<in> \<int>" by (metis Ints_of_int)
    then show "of_int \<lfloor>q\<rfloor> = q" by (auto elim: Ints_cases)
  next
    assume a: "of_int \<lfloor>q\<rfloor> = q"
    then have "\<lceil>q\<rceil> = \<lfloor>q\<rfloor>" by (metis ceiling_of_int)
    then have "trunc q = \<lfloor>q\<rfloor>" by (simp add: trunc_def)
    with a show "q = of_int (trunc q)" by metis
  qed
  finally show ?thesis using False by (simp add: js_rem_def evenly_divisible_def q_def)
qed

lemma evenly_divisible_iff:
  "evenly_divisible i m \<longleftrightarrow> m \<noteq> 0 \<and> (\<exists>k::int. i = of_int k * m)"
proof (cases "m = 0")
  case True
  then show ?thesis by (simp add: evenly_divisible_def)
next
  case False
  have "of_int \<lfloor>i / m\<rfloor> = i / m \<longleftrightarrow> (\<exists>k::int. i = of_int k * m)"
  proof
    assume "of_int \<lfloor>i / m\<rfloor> = i / m"
    then have "of_int \<lfloor>i / m\<rfloor> * m = i / m * m" by (simp only:)
    also have "\<dots> = i" using False by simp
    finally have "i = of_int \<lfloor>i / m\<rfloor> * m" by (rule sym)
    then show "\<exists>k::int. i = of_int k * m" ..
  next
    assume "\<exists>k::int. i = of_int k * m"
    then obtain k :: int where "i = of_int k * m" ..
    then have "i / m = of_int k" using False by simp
    then show "of_int \<lfloor>i / m\<rfloor> = i / m" by simp
  qed
  with False show ?thesis by (simp add: evenly_divisible_def)
qed

lemma tick_2_eq:
  "tick_2 orient major minor micro show_label i = tick_at orient major minor micro show_label i"
  by (cases orient)
     (simp_all add: tick_2_def tick_at_def kind_at_def js_rem_zero tickHeights_def
        tick_line_def Let_def)

lemma tick_1_eq:
  "tick_1 orient major minor micro show_label i = tick_at orient major minor micro show_label i"
  by (cases orient)
     (simp_all add: tick_1_def tick_at_def kind_at_def js_rem_zero tickHeights_def
        tick_line_def Let_def)

lemma drawTicks_eq:
  assumes "c = Second \<or> unit (options this) \<noteq> ''in''"
  shows "drawTicks c this orient len major minor micro start show_label =
           (if start < len \<and> unitDiv this \<le> 0 then None
            else Some (BeginPath #
                       concat (map (tick_at orient major minor micro show_label)
                                 (positions start len (unitDiv this))) @
                       [Stroke]))"
proof (cases c)
  case First
  with assms have "unit (options this) \<noteq> ''in''" by simp
  then show ?thesis
    unfolding First drawTicks.simps drawTicks_1_def
    by (simp add: for_loop_eq tick_1_eq[abs_def])
next
  case Second
  show ?thesis
    unfolding Second drawTicks.simps drawTicks_2_def
    by (simp add: for_loop_eq tick_2_eq[abs_def])
qed


section \<open>C1: the tick loop\<close>







section \<open>C8: labels of major ticks\<close>












section \<open>Renders and the entry points\<close>

lemma renderRuler_parts:
  "renderRuler c this =
     map_option (\<lambda>t. ClearRect 0 0 (width (size' this)) (height (size' this)) # t @
                      cursor_indicator c this)
       (ticks_of c this)"
  by (cases "orientation (options this)")
     (simp_all add: renderRuler_def ticks_of_def cursor_indicator_def extent_of_def
        start_of_def Let_def split: option.splits)

lemma ticks_of_single:
  assumes "c = Second \<or> unit (options this) \<noteq> ''in''"
  shows "ticks_of c this = None \<longleftrightarrow> start_of this < extent_of this \<and> unitDiv this \<le> 0"
  by (simp add: ticks_of_def drawTicks_eq[OF assms])

lemma drawTicks_1_inch_returns:
  assumes "unit (options this) = ''in''" "0 < major" "0 < minor" "0 < micro"
  shows "drawTicks_1 this orient len major minor micro start show_label \<noteq> None"
  using assms by (simp add: drawTicks_1_def for_loop_eq)

lemma drawTicks_1_inch_stuck:
  assumes "unit (options this) = ''in''" "start < len" "major \<le> 0"
  shows "drawTicks_1 this orient len major minor micro start show_label = None"
  using assms by (simp add: drawTicks_1_def for_loop_diverges)

lemma ticks_of_forward:
  assumes "steps_forward c (options this) (unitDiv this)"
  shows "ticks_of c this \<noteq> None"
proof (cases "c = First \<and> unit (options this) = ''in''")
  case True
  with assms show ?thesis
    by (simp add: steps_forward_def ticks_of_def drawTicks_1_inch_returns)
next
  case False
  then have single: "c = Second \<or> unit (options this) \<noteq> ''in''" by (cases c) auto
  from False assms have "0 < unitDiv this" by (auto simp: steps_forward_def)
  then show ?thesis by (simp add: ticks_of_single[OF single])
qed

lemma rendered_None: "rendered c this = None \<longleftrightarrow> ticks_of c this = None"
  by (simp add: rendered_def renderRuler_parts split: option.splits)

lemma rendered_Inr:
  "rendered c this = Some (Inr (s, calls)) \<longleftrightarrow> s = this \<and> renderRuler c this = Some calls"
  by (auto simp: rendered_def split: option.splits)


lemma refresh_remeasured: "refresh c pg this = rendered c (remeasured c pg this)"
  by (simp add: refresh_def remeasured_def Let_def)

lemma remeasured_options [simp]: "options (remeasured c pg this) = options this"
  by (simp add: remeasured_def Let_def)

lemma remeasured_unitDiv [simp]:
  "unitDiv (remeasured c pg this) = getPixelsPerUnit c pg (options this)"
  by (simp add: remeasured_def Let_def)

lemma remeasured_mouse [simp]:
  "mouseX (remeasured c pg this) = mouseX this" "mouseY (remeasured c pg this) = mouseY this"
  by (simp_all add: remeasured_def Let_def)

lemma or_previous_idem: "or_previous e (or_previous e p) = or_previous e p"
  by (simp add: or_previous_def split: option.splits)

lemma remeasured_idem: "remeasured c pg (remeasured c pg this) = remeasured c pg this"
  by (cases "orientation (options this)")
     (simp_all add: remeasured_def Let_def or_previous_idem)








lemma renderRuler_forward:
  "steps_forward c (options this) (unitDiv this) \<Longrightarrow> renderRuler c this \<noteq> None"
  using ticks_of_forward[of c this] by (simp add: renderRuler_parts)


lemma handleMouseLeave_forward:
  assumes "steps_forward c (options this) (unitDiv this)"
  shows "handleMouseLeave c this \<noteq> None"
proof -
  let ?r = "this\<lparr>mouseX := - 1, mouseY := - 1\<rparr>"
  from assms have "steps_forward c (options ?r) (unitDiv ?r)" by simp
  from ticks_of_forward[OF this] show ?thesis
    by (simp add: handleMouseLeave_def rendered_None)
qed

lemma refresh_forward:
  assumes "steps_forward c (options this) (getPixelsPerUnit c pg (options this))"
  shows "refresh c pg this \<noteq> None"
proof -
  from assms have "steps_forward c (options (remeasured c pg this)) (unitDiv (remeasured c pg this))"
    by simp
  from ticks_of_forward[OF this] show ?thesis
    by (simp add: refresh_remeasured rendered_None)
qed

lemma constructor_constructed:
  "constructor c pg cont o' =
     (if \<not> context2d pg then Some (Inl TypeError)
      else case renderRuler c (constructed c pg cont o') of
             None \<Rightarrow> None
           | Some calls \<Rightarrow> Some (Inr (setPosition (constructed c pg cont o'), calls)))"
  by (simp add: constructor_def constructed_def Let_def split: option.splits)

lemma constructed_fields [simp]:
  "options (constructed c pg cont o') = merge defaultOptions o'"
  "unitDiv (constructed c pg cont o') = getPixelsPerUnit c pg (merge defaultOptions o')"
  "mouseX (constructed c pg cont o') = 0"
  "mouseY (constructed c pg cont o') = 0"
  by (simp_all add: constructed_def Let_def)

lemma setPosition_fields [simp]:
  "options (setPosition this) = options this"
  "unitDiv (setPosition this) = unitDiv this"
  "mouseX (setPosition this) = mouseX this"
  "mouseY (setPosition this) = mouseY this"
  "size' (setPosition this) = size' this"
  "width (canvas (setPosition this)) = width (canvas this)"
  "height (canvas (setPosition this)) = height (canvas this)"
  by (simp_all add: setPosition_def Let_def)

lemma constructor_forward:
  assumes "steps_forward c (merge defaultOptions o')
             (getPixelsPerUnit c pg (merge defaultOptions o'))"
  shows "constructor c pg cont o' \<noteq> None"
proof -
  from assms have "steps_forward c (options (constructed c pg cont o'))
                     (unitDiv (constructed c pg cont o'))"
    by simp
  from renderRuler_forward[OF this] show ?thesis
    by (auto simp: constructor_constructed split: option.splits)
qed


section \<open>C5: the scale factor of each unit\<close>

text \<open>
  C5 (as amended). In both copies the unit \<open>px\<close> gives the scale factor 1, the unit \<open>cm\<close>
  gives exactly 10 times what \<open>mm\<close> gives, and the unit \<open>in\<close> gives exactly 25.4 times what
  \<open>mm\<close> gives. What \<open>mm\<close> gives is the measured pixels per millimetre in the second copy,
  and the constant \<open>60 / 25.4\<close> in the first copy, which measures nothing.
\<close>

theorem scale_by_unit:
  "getPixelsPerUnit c pg (opts\<lparr>unit := ''px''\<rparr>) = 1 \<and>
   getPixelsPerUnit c pg (opts\<lparr>unit := ''cm''\<rparr>) =
     10 * getPixelsPerUnit c pg (opts\<lparr>unit := ''mm''\<rparr>) \<and>
   getPixelsPerUnit c pg (opts\<lparr>unit := ''in''\<rparr>) =
     (254 / 10) * getPixelsPerUnit c pg (opts\<lparr>unit := ''mm''\<rparr>) \<and>
   getPixelsPerUnit Second pg (opts\<lparr>unit := ''mm''\<rparr>) = calcPixelsPerMM pg \<and>
   getPixelsPerUnit First pg (opts\<lparr>unit := ''mm''\<rparr>) = 60 / (254 / 10)"
  by (cases c) (simp_all add: getPixelsPerUnit_1_def getPixelsPerUnit_2_def)

theorem scale_by_unit_witness:
  "getPixelsPerUnit Second (test_page (testDiv 120 80) 4) (defaultOptions\<lparr>unit := ''in''\<rparr>) =
     508 / 5 \<and>
   getPixelsPerUnit Second (test_page (testDiv 120 80) 4) (defaultOptions\<lparr>unit := ''cm''\<rparr>) = 40 \<and>
   getPixelsPerUnit Second (test_page (testDiv 120 80) 4) (defaultOptions\<lparr>unit := ''mm''\<rparr>) = 4 \<and>
   getPixelsPerUnit Second (test_page (testDiv 120 80) 4) (defaultOptions\<lparr>unit := ''px''\<rparr>) = 1"
  using scale_by_unit[of Second "test_page (testDiv 120 80) 4" defaultOptions]
  by (simp add: calcPixelsPerMM_def test_page_def)

text \<open>
  The claim as first stated fails in the first copy: with a probe that measures 4 pixels
  to the millimetre, the unit \<open>mm\<close> gives \<open>60 / 25.4 = 300 / 127\<close>.
\<close>

theorem scale_by_unit_counterexample:
  "getPixelsPerUnit First (test_page (testDiv 120 80) 4) (defaultOptions\<lparr>unit := ''mm''\<rparr>) =
     300 / 127 \<and>
   calcPixelsPerMM (test_page (testDiv 120 80) 4) = 4"
  by (simp add: getPixelsPerUnit_1_def calcPixelsPerMM_def test_page_def)


section \<open>C4: the scale factor after each operation\<close>

lemma getPixelsPerUnit_nonneg: "0 \<le> getPixelsPerUnit c pg opts"
  by (cases c) (simp_all add: getPixelsPerUnit_1_def getPixelsPerUnit_2_def calcPixelsPerMM_def)

lemma getPixelsPerUnit_pos:
  "0 < getPixelsPerUnit c pg opts \<longleftrightarrow>
     c = First \<or> unit opts \<notin> {''mm'', ''cm'', ''in''} \<or> 0 < offsetWidth_1mm pg"
  by (cases c) (auto simp: getPixelsPerUnit_1_def getPixelsPerUnit_2_def calcPixelsPerMM_def)

lemma constructor_Inr:
  "constructor c pg cont o' = Some (Inr (s, calls)) \<Longrightarrow>
     s = setPosition (constructed c pg cont o')"
  by (auto simp: constructor_constructed split: if_splits option.splits)

lemma refresh_Inr:
  "refresh c pg this = Some (Inr (s, calls)) \<longleftrightarrow>
     s = remeasured c pg this \<and> renderRuler c (remeasured c pg this) = Some calls"
  by (simp add: refresh_remeasured rendered_Inr)

lemma handleMouseLeave_Inr:
  "handleMouseLeave c this = Some (Inr (s, calls)) \<longleftrightarrow>
     s = this\<lparr>mouseX := - 1, mouseY := - 1\<rparr> \<and> renderRuler c s = Some calls"
  by (auto simp: handleMouseLeave_def rendered_Inr)

lemma handleMouseMove_Inr:
  "handleMouseMove c pg event this = Some (Inr (s, calls)) \<Longrightarrow>
     \<exists>rect. parentElement pg = Some rect \<and>
       s = this\<lparr>mouseX := clientX event - rect_left rect,
                mouseY := clientY event - rect_top rect\<rparr>"
  by (auto simp: handleMouseMove_def Let_def rendered_Inr split: option.splits if_splits)

text \<open>
  C4 (as amended). After construction and after every refresh the scale factor is what
  \<^verbatim>\<open>getPixelsPerUnit\<close> computed in that call; a pointer-move and a pointer-leave do not
  change it. That value is never negative, and it is strictly positive exactly when the
  copy is the first one (whose constants are positive), or the unit is none of \<open>mm\<close>,
  \<open>cm\<close>, \<open>in\<close>, or the probe measured more than 0 pixels to the millimetre.
\<close>

theorem scale_factor_after:
  "(constructor c pg cont o' = Some (Inr (s, calls)) \<longrightarrow>
      unitDiv s = getPixelsPerUnit c pg (options s)) \<and>
   (refresh c pg this = Some (Inr (s, calls)) \<longrightarrow>
      unitDiv s = getPixelsPerUnit c pg (options s)) \<and>
   (handleMouseMove c pg event this = Some (Inr (s, calls)) \<longrightarrow> unitDiv s = unitDiv this) \<and>
   (handleMouseLeave c this = Some (Inr (s, calls)) \<longrightarrow> unitDiv s = unitDiv this) \<and>
   0 \<le> getPixelsPerUnit c pg opts \<and>
   (0 < getPixelsPerUnit c pg opts \<longleftrightarrow>
      c = First \<or> unit opts \<notin> {''mm'', ''cm'', ''in''} \<or> 0 < offsetWidth_1mm pg)"
proof (intro conjI impI)
  assume "constructor c pg cont o' = Some (Inr (s, calls))"
  from constructor_Inr[OF this] show "unitDiv s = getPixelsPerUnit c pg (options s)" by simp
next
  assume "refresh c pg this = Some (Inr (s, calls))"
  then show "unitDiv s = getPixelsPerUnit c pg (options s)" by (simp add: refresh_Inr)
next
  assume "handleMouseMove c pg event this = Some (Inr (s, calls))"
  from handleMouseMove_Inr[OF this] show "unitDiv s = unitDiv this" by auto
next
  assume "handleMouseLeave c this = Some (Inr (s, calls))"
  then show "unitDiv s = unitDiv this" by (simp add: handleMouseLeave_Inr)
next
  show "0 \<le> getPixelsPerUnit c pg opts" by (rule getPixelsPerUnit_nonneg)
next
  show "0 < getPixelsPerUnit c pg opts \<longleftrightarrow>
      c = First \<or> unit opts \<notin> {''mm'', ''cm'', ''in''} \<or> 0 < offsetWidth_1mm pg"
    by (rule getPixelsPerUnit_pos)
qed

theorem scale_factor_after_witness:
  "scale_after (constructor Second (test_page (testDiv 30 20) 5) (testDiv 30 20)
                  (horizontalOptions_2\<lparr>unit' := Some ''mm''\<rparr>)) = Some 5 \<and>
   scale_after (refresh First (test_page (testDiv 20 20) 5)
                  (test_ruler (horizontalOptions_2\<lparr>unit' := Some ''cm''\<rparr>) 30 30 1 12 3)) =
     Some (3000 / 127) \<and>
   scale_after (handleMouseLeave Second
                  (test_ruler (horizontalOptions_2\<lparr>unit' := Some ''mm''\<rparr>) 30 30 5 12 3)) = Some 5"
proof -
  let ?pg = "test_page (testDiv 30 20) 5"
  let ?o = "horizontalOptions_2\<lparr>unit' := Some ''mm''\<rparr>"
  obtain s1 calls1 where e1: "constructor Second ?pg (testDiv 30 20) ?o = Some (Inr (s1, calls1))"
    using constructor_forward[of Second ?o ?pg "testDiv 30 20"]
    by (cases "constructor Second ?pg (testDiv 30 20) ?o")
       (auto simp: constructor_constructed steps_forward_def merge_def defaultOptions_def
          horizontalOptions_2_def getPixelsPerUnit_2_def calcPixelsPerMM_def test_page_def
          split: option.splits)
  have o1: "options s1 = merge defaultOptions ?o" using constructor_Inr[OF e1] by simp
  have g1: "getPixelsPerUnit Second ?pg (merge defaultOptions ?o) = 5"
    by (simp add: merge_def defaultOptions_def horizontalOptions_2_def getPixelsPerUnit_2_def
          calcPixelsPerMM_def test_page_def)
  from scale_factor_after[of Second ?pg "testDiv 30 20" ?o s1 calls1] e1
  have "unitDiv s1 = getPixelsPerUnit Second ?pg (options s1)" by blast
  then have "unitDiv s1 = 5" by (simp only: o1 g1)
  with e1 have c1: "scale_after (constructor Second ?pg (testDiv 30 20) ?o) = Some 5"
    by simp
  let ?pg2 = "test_page (testDiv 20 20) 5"
  let ?r2 = "test_ruler (horizontalOptions_2\<lparr>unit' := Some ''cm''\<rparr>) 30 30 1 12 3"
  have f2: "steps_forward First (options ?r2) (getPixelsPerUnit First ?pg2 (options ?r2))"
    by (simp add: steps_forward_def test_ruler_def merge_def defaultOptions_def
          horizontalOptions_2_def getPixelsPerUnit_1_def)
  obtain s2 calls2 where e2: "refresh First ?pg2 ?r2 = Some (Inr (s2, calls2))"
    using refresh_forward[OF f2] refresh_remeasured[of First ?pg2 ?r2]
    by (cases "refresh First ?pg2 ?r2") (auto simp: rendered_def split: option.splits)
  have g2: "getPixelsPerUnit First ?pg2 (options s2) = 3000 / 127"
    using e2 by (simp add: refresh_Inr test_ruler_def merge_def defaultOptions_def
          horizontalOptions_2_def getPixelsPerUnit_1_def)
  from scale_factor_after[of First ?pg2 _ _ s2 calls2 ?r2] e2
  have "unitDiv s2 = getPixelsPerUnit First ?pg2 (options s2)" by blast
  then have "unitDiv s2 = 3000 / 127" by (simp only: g2)
  with e2 have c2: "scale_after (refresh First ?pg2 ?r2) = Some (3000 / 127)"
    by simp
  let ?r3 = "test_ruler (horizontalOptions_2\<lparr>unit' := Some ''mm''\<rparr>) 30 30 5 12 3"
  have f3: "steps_forward Second (options ?r3) (unitDiv ?r3)"
    by (simp add: steps_forward_def test_ruler_def)
  obtain s3 calls3 where e3: "handleMouseLeave Second ?r3 = Some (Inr (s3, calls3))"
    using handleMouseLeave_forward[OF f3]
    by (cases "handleMouseLeave Second ?r3")
       (auto simp: handleMouseLeave_def rendered_def split: option.splits)
  from scale_factor_after[of Second _ _ _ s3 calls3 ?r3] e3
  have "unitDiv s3 = unitDiv ?r3" by blast
  then have "unitDiv s3 = 5" by (simp add: test_ruler_def)
  with e3 have c3: "scale_after (handleMouseLeave Second ?r3) = Some 5"
    by simp
  from c1 c2 c3 show ?thesis by simp
qed

text \<open>
  The claim as first stated fails in the second copy: on a page where the probe measures 0
  and the container has no width, construction with the unit \<open>mm\<close> returns an instance
  whose scale factor is 0 (and the cursor label reads \<open>X: NaNmm\<close>).
\<close>

theorem scale_factor_after_counterexample:
  "scale_after (constructor Second (test_page (testDiv 0 0) 0) (testDiv 0 0)
                  (horizontalOptions_2\<lparr>unit' := Some ''mm''\<rparr>)) = Some 0 \<and>
   calls_of (constructor Second (test_page (testDiv 0 0) 0) (testDiv 0 0)
                  (horizontalOptions_2\<lparr>unit' := Some ''mm''\<rparr>)) =
     Some [ClearRect 0 0 0 30, BeginPath, Stroke, BeginPath,
           StrokeStyle ''rgba(0, 0, 0, 0.3)'', MoveTo 0 0, LineTo 0 30,
           Stroke, FillStyle ''black'', FillText ''X: NaNmm'' 5 15]"
  by code_simp


section \<open>C3: renders return\<close>





section \<open>C2: non-positive tick intervals\<close>

text \<open>
  C2. The claim holds in the second copy and in the first copy's loop for the units
  other than \<open>in\<close>, where each test is guarded by \<^verbatim>\<open>tick > 0\<close>. The first copy's branch
  for the unit \<open>in\<close> lacks the guard and steps by the interval itself: with the
  configuration of its own test section and a major interval of 0, the construction
  over a container 120 wide never returns, while the same interval is harmless with the
  unit \<open>px\<close> and in the second copy.
\<close>

theorem inch_branch_never_returns:
  "constructor First (test_page (testDiv 120 80) 4) (testDiv 120 80)
     (horizontalOptions_1\<lparr>tickMajor' := Some 0\<rparr>) = None \<and>
   constructor First (test_page (testDiv 120 80) 4) (testDiv 120 80)
     (horizontalOptions_1\<lparr>unit' := Some ''px'', tickMajor' := Some 0\<rparr>) \<noteq> None \<and>
   constructor Second (test_page (testDiv 120 80) 4) (testDiv 120 80)
     (horizontalOptions_1\<lparr>tickMajor' := Some 0\<rparr>) \<noteq> None"
proof -
  let ?pg = "test_page (testDiv 120 80) 4"
  let ?o = "horizontalOptions_1\<lparr>tickMajor' := Some 0\<rparr>"
  let ?r = "constructed First ?pg (testDiv 120 80) ?o"
  have "ticks_of First ?r = None"
    unfolding ticks_of_def drawTicks.simps
    by (rule drawTicks_1_inch_stuck)
       (simp_all add: start_of_def extent_of_def constructed_def merge_def defaultOptions_def
          horizontalOptions_1_def testDiv_def Let_def)
  then have a: "constructor First ?pg (testDiv 120 80) ?o = None"
    by (simp add: constructor_constructed renderRuler_parts test_page_def)
  have b: "constructor First ?pg (testDiv 120 80)
             (horizontalOptions_1\<lparr>unit' := Some ''px'', tickMajor' := Some 0\<rparr>) \<noteq> None"
    by (rule constructor_forward)
       (simp add: steps_forward_def merge_def horizontalOptions_1_def getPixelsPerUnit_1_def)
  have c: "constructor Second ?pg (testDiv 120 80) ?o \<noteq> None"
    by (rule constructor_forward)
       (simp add: steps_forward_def merge_def horizontalOptions_1_def getPixelsPerUnit_2_def
          calcPixelsPerMM_def test_page_def)
  from a b c show ?thesis by simp
qed


section \<open>C6: the cursor position indicator\<close>









section \<open>C7: pointer-leave\<close>




section \<open>C9: refresh is idempotent\<close>

text \<open>
  C9. With the page unchanged (the same container extent and the same probe), a refresh
  followed by a second refresh of the resulting instance has the outcome of the first
  refresh alone: the same instance and the same sequence of calls on the 2D context
  (and, where the first does not return, neither does the pair).
\<close>

theorem refresh_idempotent:
  "(case refresh c pg this of
      Some (Inr (s, calls)) \<Rightarrow> refresh c pg s
    | other \<Rightarrow> other) = refresh c pg this"
proof (cases "renderRuler c (remeasured c pg this)")
  case None
  then show ?thesis by (simp add: refresh_remeasured rendered_def)
next
  case (Some calls)
  then have "refresh c pg this = Some (Inr (remeasured c pg this, calls))"
    by (simp add: refresh_remeasured rendered_def)
  moreover from Some have "refresh c pg (remeasured c pg this) =
      Some (Inr (remeasured c pg this, calls))"
    by (simp add: refresh_remeasured remeasured_idem rendered_def)
  ultimately show ?thesis by simp
qed

text \<open>
  A ruler 30 wide refreshed in a container 20 wide: the first refresh draws four ticks and
  the cursor indicator; refreshing the result again gives the same outcome.
\<close>

theorem refresh_idempotent_witness:
  "calls_of (refresh Second (test_page (testDiv 20 50) 5)
     (test_ruler (horizontalOptions_2\<lparr>unit' := Some ''mm''\<rparr>) 30 30 1 12 3)) =
     Some [ClearRect 0 0 20 30, BeginPath, MoveTo 0 0, LineTo 0 15,
         FillText ''0'' 2 25, MoveTo 5 0, LineTo 5 5, MoveTo 10 0,
         LineTo 10 10, MoveTo 15 0, LineTo 15 5, Stroke, BeginPath,
         StrokeStyle ''rgba(0, 0, 0, 0.3)'', MoveTo 12 0, LineTo 12 30,
         Stroke, FillStyle ''black'', FillText ''X: 2mm'' 17 15] \<and>
   refresh Second (test_page (testDiv 20 50) 5)
     (remeasured Second (test_page (testDiv 20 50) 5)
        (test_ruler (horizontalOptions_2\<lparr>unit' := Some ''mm''\<rparr>) 30 30 1 12 3)) =
   refresh Second (test_page (testDiv 20 50) 5)
     (test_ruler (horizontalOptions_2\<lparr>unit' := Some ''mm''\<rparr>) 30 30 1 12 3)"
proof -
  let ?pg = "test_page (testDiv 20 50) 5"
  let ?r = "test_ruler (horizontalOptions_2\<lparr>unit' := Some ''mm''\<rparr>) 30 30 1 12 3"
  let ?calls = "[ClearRect 0 0 20 30, BeginPath, MoveTo 0 0, LineTo 0 15,
         FillText ''0'' 2 25, MoveTo 5 0, LineTo 5 5, MoveTo 10 0,
         LineTo 10 10, MoveTo 15 0, LineTo 15 5, Stroke, BeginPath,
         StrokeStyle ''rgba(0, 0, 0, 0.3)'', MoveTo 12 0, LineTo 12 30,
         Stroke, FillStyle ''black'', FillText ''X: 2mm'' 17 15]"
  have c: "calls_of (refresh Second ?pg ?r) = Some ?calls" by code_simp
  then obtain s where e: "refresh Second ?pg ?r = Some (Inr (s, ?calls))"
    by (cases "refresh Second ?pg ?r" rule: calls_of.cases) auto
  then have s: "s = remeasured Second ?pg ?r" by (simp add: refresh_Inr)
  from refresh_idempotent[of Second ?pg ?r] e
  have "refresh Second ?pg s = refresh Second ?pg ?r" by simp
  with c s show ?thesis by simp
qed


section \<open>C10: refresh re-measures and never throws\<close>









end
